theory Spec2Isabelle
  imports Complex_Main
begin

section \<open>The head-position comparison plot of \<^verbatim>\<open>examples/plot_simulation.py\<close>\<close>

text \<open>
  The script reads three head-position logs and draws their translations, one subplot per
  spatial axis (lines 88 to 115). Everything it does is a call into numpy or into the
  plotting library, so the model keeps the figure those calls build up: a figure is the
  list of its axes objects, an axes object holds its grid position, its lines, its two
  axis labels and its legend. Array entries are numpy floats; they are modelled as reals,
  so that \<open>1000 * x\<close> is the product itself and what is verified is which array is handed to
  which call, not how the product is rounded.
\<close>

subsection \<open>Arrays and the values returned by \<^verbatim>\<open>get_chpi_positions\<close>\<close>

datatype py_error = AttributeError | IndexError | ValueError

text \<open>A two-dimensional array: its second dimension and its rows.\<close>

record ndarray2 =
  ncols :: nat
  rows :: "real list list"

text \<open>
  \<^verbatim>\<open>data[:, ai]\<close>: the column \<open>ai\<close> as a one-dimensional array; numpy raises IndexError
  for an index beyond the second dimension.
\<close>

definition column :: "nat \<Rightarrow> ndarray2 \<Rightarrow> py_error + real list" where
  "column ai data =
     (if ai < ncols data then Inr (map (\<lambda>r. r ! ai) (rows data)) else Inl IndexError)"

text \<open>\<^verbatim>\<open>1000 * a\<close> on a one-dimensional array multiplies every entry.\<close>

definition times_1000 :: "real list \<Rightarrow> real list" where
  "times_1000 a = map (\<lambda>v. 1000 * v) a"

text \<open>
  Lines 89 to 94 bind, for each log, the translations (one row per sample), the rotations
  (one 3 by 3 matrix per sample) and the timestamps.
\<close>

record chpi =
  chpi_trans :: ndarray2
  chpi_rot :: "real list list list"
  chpi_t :: "real list"

subsection \<open>The plotting library's objects\<close>

text \<open>
  The plotting library is not part of the repository, which holds only the calls. Its
  objects carry what the spec says those calls put on the figure.
\<close>

record line2d =
  xdata :: "real list"
  ydata :: "real list"
  color :: char
  marker :: char
  markersize :: int
  step_where :: string
  label :: string

record axes =
  geometry :: "nat \<times> nat \<times> nat"
  ax_lines :: "line2d list"
  ylabel :: string
  xlabel :: string
  legend :: "string list option"

record figure =
  fig_num :: nat
  fig_axes :: "axes list"

text \<open>
  Modelled from the spec: \<^verbatim>\<open>plt.figure()\<close> of the plotting library. It makes a new, empty
  figure object, told apart from the figures already there by its number (the next free
  one); it becomes the current figure, the one \<^verbatim>\<open>plt.subplot\<close> and \<^verbatim>\<open>plt.legend\<close> work on.
\<close>

definition plt_figure :: "figure list \<Rightarrow> figure" where
  "plt_figure figs = \<lparr>fig_num = Suc (fold max (map fig_num figs) 0), fig_axes = []\<rparr>"

text \<open>
  Modelled from the spec: \<^verbatim>\<open>plt.subplot(nrows, ncols, index)\<close> of the plotting library, on
  a figure opened just before. It creates a new, empty axes object at that position of the
  grid, which becomes the current axes.
\<close>

definition plt_subplot :: "nat \<Rightarrow> nat \<Rightarrow> nat \<Rightarrow> axes" where
  "plt_subplot nr nc index =
     \<lparr>geometry = (nr, nc, index), ax_lines = [], ylabel = [], xlabel = [], legend = None\<rparr>"

text \<open>
  Modelled from the spec: \<^verbatim>\<open>ax.step\<close> of the plotting library, of which the repository
  holds only the call. It draws one line through the points it is given, with the styling
  of the keyword arguments, and returns the list of the lines it drew; a mismatch in the
  shapes of \<open>x\<close> and \<open>y\<close> is a failure of the call.
\<close>

definition ax_step ::
  "real list \<Rightarrow> real list \<Rightarrow> char \<Rightarrow> char \<Rightarrow> int \<Rightarrow> string \<Rightarrow> string \<Rightarrow> axes
     \<Rightarrow> py_error + line2d list \<times> axes" where
  "ax_step x y c m ms wh lb ax =
     (if length x \<noteq> length y then Inl ValueError
      else let line = \<lparr>xdata = x, ydata = y, color = c, marker = m, markersize = ms,
                      step_where = wh, label = lb\<rparr>
           in Inr ([line], ax\<lparr>ax_lines := ax_lines ax @ [line]\<rparr>))"

text \<open>
  Modelled from the spec: \<^verbatim>\<open>ax.set_ylabel\<close> and \<^verbatim>\<open>ax.set_xlabel\<close> of the plotting library,
  which label the vertical and the horizontal axis of the subplot.
\<close>

definition ax_set_ylabel :: "string \<Rightarrow> axes \<Rightarrow> axes" where
  "ax_set_ylabel s ax = ax\<lparr>ylabel := s\<rparr>"

definition ax_set_xlabel :: "string \<Rightarrow> axes \<Rightarrow> axes" where
  "ax_set_xlabel s ax = ax\<lparr>xlabel := s\<rparr>"

text \<open>
  Modelled from the spec: \<^verbatim>\<open>plt.legend\<close> of the plotting library, called with the list of
  line objects. It puts a legend on the current axes that lists the labels of those lines
  in the order of the list.
\<close>

definition plt_legend :: "line2d list \<Rightarrow> axes \<Rightarrow> axes" where
  "plt_legend lns ax = ax\<lparr>legend := Some (map label lns)\<rparr>"

text \<open>
  What the class of the axes objects provides is not part of the repository; the one
  attribute in doubt is a parameter of the model.
\<close>

record axes_class =
  has_set_axes :: bool

text \<open>
  \<^verbatim>\<open>ax.set_axes(arg)\<close>: the attribute lookup fails on a class without the method. Where the
  class has it, the call is taken to leave lines, labels and legend as they are (the spec
  reads it as an attempt to rescale the axis limits, which the model does not hold).
\<close>

definition ax_set_axes :: "axes_class \<Rightarrow> string \<Rightarrow> axes \<Rightarrow> py_error + axes" where
  "ax_set_axes cls arg ax = (if has_set_axes cls then Inr ax else Inl AttributeError)"

text \<open>
  Modelled from the spec: the axes class of the plotting library, which the repository
  does not contain. The spec records that standard axes objects have no method
  \<^verbatim>\<open>set_axes\<close>.
\<close>

definition standard_axes :: axes_class where
  "standard_axes = \<lparr>has_set_axes = False\<rparr>"

subsection \<open>The plotting loop (lines 96 to 115)\<close>

text \<open>
  The inner loop (lines 107 to 109) over the zipped conditions, on the axes object \<open>ax\<close>
  with the list \<open>lines\<close> collected so far. An exception leaves the axes object as the
  calls before it made it.
\<close>

fun plot_conditions ::
  "nat \<Rightarrow> (real list \<times> ndarray2 \<times> int \<times> char \<times> string) list \<Rightarrow> line2d list \<Rightarrow> axes
     \<Rightarrow> axes \<times> line2d list \<times> py_error option" where
  "plot_conditions ai [] lns ax = (ax, lns, None)"
| "plot_conditions ai ((t, data, sz, col, lb) # rest) lns ax =
     (case column ai data of
        Inl e \<Rightarrow> (ax, lns, Some e)
      | Inr c \<Rightarrow>
          (case ax_step t (times_1000 c) col (CHR ''o'') sz ''post'' lb ax of
             Inl e \<Rightarrow> (ax, lns, Some e)
           | Inr ([], ax') \<Rightarrow> (ax', lns, Some IndexError)
           | Inr (line # _, ax') \<Rightarrow> plot_conditions ai rest (lns @ [line]) ax'))"

text \<open>One pass of the outer loop body (lines 105 to 115) for the index \<open>ai\<close> and letter \<open>axis\<close>.\<close>

definition subplot_iteration ::
  "axes_class \<Rightarrow> (real list \<times> ndarray2 \<times> int \<times> char \<times> string) list \<Rightarrow> nat \<Rightarrow> char
     \<Rightarrow> axes \<times> py_error option" where
  "subplot_iteration cls conds ai axis =
     (case plot_conditions ai conds [] (plt_subplot 3 1 (ai + 1)) of
        (ax1, lns, Some e) \<Rightarrow> (ax1, Some e)
      | (ax1, lns, None) \<Rightarrow>
          (let ax2 = ax_set_ylabel [axis] ax1;
               ax3 = (if ai = 1 then plt_legend lns ax2 else ax2);
               ax4 = (if ai = 2 then ax_set_xlabel ''Time (sec)'' ax3 else ax3)
           in case ax_set_axes cls ''tight'' ax4 of
                Inl e \<Rightarrow> (ax4, Some e)
              | Inr ax5 \<Rightarrow> (ax5, None)))"

text \<open>
  The outer loop over \<^verbatim>\<open>enumerate(axes)\<close>. Each pass adds its axes object to the figure, in
  the state the pass left it in; an exception ends the loop.
\<close>

fun plot_rows ::
  "axes_class \<Rightarrow> (real list \<times> ndarray2 \<times> int \<times> char \<times> string) list \<Rightarrow> (nat \<times> char) list
     \<Rightarrow> figure \<Rightarrow> figure \<times> py_error option" where
  "plot_rows cls conds [] fig = (fig, None)"
| "plot_rows cls conds ((ai, axis) # rest) fig =
     (case subplot_iteration cls conds ai axis of
        (ax, Some e) \<Rightarrow> (fig\<lparr>fig_axes := fig_axes fig @ [ax]\<rparr>, Some e)
      | (ax, None) \<Rightarrow> plot_rows cls conds rest (fig\<lparr>fig_axes := fig_axes fig @ [ax]\<rparr>))"

text \<open>
  The state the script runs in: the three values bound in lines 89 to 94, the figures the
  plotting library holds (the newest last) and the files written so far.
\<close>

record session =
  pos_orig :: chpi
  pos_move :: chpi
  pos_stat :: chpi
  figures :: "figure list"
  files_written :: "string list"

text \<open>Lines 99 to 103 and the \<^verbatim>\<open>zip\<close> of line 107.\<close>

definition conditions ::
  "session \<Rightarrow> (real list \<times> ndarray2 \<times> int \<times> char \<times> string) list" where
  "conditions s =
     (let ts = [chpi_t (pos_stat s), chpi_t (pos_orig s), chpi_t (pos_move s)];
          transs = [chpi_trans (pos_stat s), chpi_trans (pos_orig s), chpi_trans (pos_move s)];
          labels = [''stationary'', ''original'', ''simulated''];
          sizes = [5, 10, 5];
          colors = ''ykr''
      in zip ts (zip transs (zip sizes (zip colors labels))))"

text \<open>Lines 96 to 115: the new figure is filled by the loop and stays with the library.\<close>

definition plot_script :: "axes_class \<Rightarrow> session \<Rightarrow> session \<times> py_error option" where
  "plot_script cls s =
     (case plot_rows cls (conditions s) (enumerate 0 ''XYZ'') (plt_figure (figures s)) of
        (fig, r) \<Rightarrow> (s\<lparr>figures := figures s @ [fig]\<rparr>, r))"

text \<open>The figure a run of lines 96 to 115 leaves with the plotting library.\<close>

definition rendered :: "axes_class \<Rightarrow> session \<Rightarrow> figure" where
  "rendered cls s = last (figures (fst (plot_script cls s)))"

subsection \<open>Inputs\<close>

text \<open>
  The shape the spec gives a trajectory: as many rows of translations as timestamps, three
  columns or more, every row of the array's width.
\<close>

definition well_shaped :: "chpi \<Rightarrow> bool" where
  "well_shaped p =
     (3 \<le> ncols (chpi_trans p) \<and> length (rows (chpi_trans p)) = length (chpi_t p) \<and>
      list_all (\<lambda>r. length r = ncols (chpi_trans p)) (rows (chpi_trans p)))"

text \<open>\<^verbatim>\<open>data[:, :3]\<close>, the first three columns of an array.\<close>

definition first_three :: "ndarray2 \<Rightarrow> ndarray2" where
  "first_three data = \<lparr>ncols = min 3 (ncols data), rows = map (take 3) (rows data)\<rparr>"

definition eye3 :: "real list list" where
  "eye3 = [[1, 0, 0], [0, 1, 0], [0, 0, 1]]"

text \<open>
  The concrete scenario of the spec: a stationary head, a reference recording that
  alternates between 0 and 1 mm along X at twice the sampling rate, and a simulated
  recording that moves to 2 mm along X at \<open>t = 1\<close>. No figure is open, no file written.
\<close>

definition scenario :: session where
  "scenario =
     \<lparr>pos_orig =
        \<lparr>chpi_trans = \<lparr>ncols = 3, rows = [[0, 0, 0], [1 / 1000, 0, 0], [0, 0, 0],
                                          [1 / 1000, 0, 0], [0, 0, 0]]\<rparr>,
         chpi_rot = replicate 5 eye3, chpi_t = [0, 1 / 2, 1, 3 / 2, 2]\<rparr>,
      pos_move =
        \<lparr>chpi_trans = \<lparr>ncols = 3, rows = [[0, 0, 0], [2 / 1000, 0, 0], [2 / 1000, 0, 0]]\<rparr>,
         chpi_rot = replicate 3 eye3, chpi_t = [0, 1, 2]\<rparr>,
      pos_stat =
        \<lparr>chpi_trans = \<lparr>ncols = 3, rows = [[0, 0, 0], [0, 0, 0], [0, 0, 0]]\<rparr>,
         chpi_rot = replicate 3 eye3, chpi_t = [0, 1, 2]\<rparr>,
      figures = [], files_written = []\<rparr>"

text \<open>
  The same trajectories with other rotations, a fourth column in one array and a file
  already on disk.
\<close>

definition scenario_other_rotations :: session where
  "scenario_other_rotations =
     \<lparr>pos_orig =
        \<lparr>chpi_trans = \<lparr>ncols = 3, rows = [[0, 0, 0], [1 / 1000, 0, 0], [0, 0, 0],
                                          [1 / 1000, 0, 0], [0, 0, 0]]\<rparr>,
         chpi_rot = replicate 5 [[0, 1, 0], [-1, 0, 0], [0, 0, 1]],
         chpi_t = [0, 1 / 2, 1, 3 / 2, 2]\<rparr>,
      pos_move =
        \<lparr>chpi_trans = \<lparr>ncols = 4, rows = [[0, 0, 0, 7], [2 / 1000, 0, 0, 8],
                                          [2 / 1000, 0, 0, 9]]\<rparr>,
         chpi_rot = [], chpi_t = [0, 1, 2]\<rparr>,
      pos_stat =
        \<lparr>chpi_trans = \<lparr>ncols = 3, rows = [[0, 0, 0], [0, 0, 0], [0, 0, 0]]\<rparr>,
         chpi_rot = replicate 3 [[1, 0, 0], [0, 0, 1], [0, -1, 0]], chpi_t = [0, 1, 2]\<rparr>,
      figures = [], files_written = [''hp_move.txt'']\<rparr>"

subsection \<open>What one pass draws, in closed form\<close>

text \<open>
  Both calls of line 108 go through for a condition when the column exists and has as many
  entries as there are timestamps.
\<close>

definition plottable :: "nat \<Rightarrow> real list \<times> ndarray2 \<times> int \<times> char \<times> string \<Rightarrow> bool" where
  "plottable ai c =
     (case c of (t, data, sz, col, lb) \<Rightarrow> ai < ncols data \<and> length t = length (rows data))"

definition step_line :: "nat \<Rightarrow> real list \<times> ndarray2 \<times> int \<times> char \<times> string \<Rightarrow> line2d" where
  "step_line ai c =
     (case c of (t, data, sz, col, lb) \<Rightarrow>
        \<lparr>xdata = t, ydata = times_1000 (map (\<lambda>r. r ! ai) (rows data)), color = col,
         marker = CHR ''o'', markersize = sz, step_where = ''post'', label = lb\<rparr>)"

definition step_error :: "nat \<Rightarrow> real list \<times> ndarray2 \<times> int \<times> char \<times> string \<Rightarrow> py_error" where
  "step_error ai c =
     (case c of (t, data, sz, col, lb) \<Rightarrow> if ai < ncols data then ValueError else IndexError)"

definition drawn ::
  "nat \<Rightarrow> (real list \<times> ndarray2 \<times> int \<times> char \<times> string) list \<Rightarrow> line2d list" where
  "drawn ai conds = map (step_line ai) (takeWhile (plottable ai) conds)"

definition first_failure ::
  "nat \<Rightarrow> (real list \<times> ndarray2 \<times> int \<times> char \<times> string) list \<Rightarrow> py_error option" where
  "first_failure ai conds =
     (case dropWhile (plottable ai) conds of [] \<Rightarrow> None | c # _ \<Rightarrow> Some (step_error ai c))"

subsection \<open>What a step line shows\<close>

text \<open>
  Modelled from the spec: how the plotting library draws a line whose \<^verbatim>\<open>where\<close> is
  \<^verbatim>\<open>'post'\<close>, which the repository does not contain. Between two consecutive samples the
  value shown is that of the earlier one, until the timestamp of the later one is reached.
  Other conventions are not used by the script and are left without a reading.
\<close>

fun shown_post :: "real list \<Rightarrow> real list \<Rightarrow> real \<Rightarrow> real option" where
  "shown_post (x0 # x1 # xs) (y0 # ys) x =
     (if x0 \<le> x \<and> x < x1 then Some y0 else shown_post (x1 # xs) ys x)"
| "shown_post _ _ _ = None"

definition shown :: "line2d \<Rightarrow> real \<Rightarrow> real option" where
  "shown l x = (if step_where l = ''post'' then shown_post (xdata l) (ydata l) x else None)"

section \<open>The loops in closed form\<close>

lemma plot_conditions_eq:
  "plot_conditions ai conds lns ax =
     (ax\<lparr>ax_lines := ax_lines ax @ drawn ai conds\<rparr>, lns @ drawn ai conds,
      first_failure ai conds)"
proof (induction conds arbitrary: lns ax)
  case Nil
  show ?case by (simp add: drawn_def first_failure_def)
next
  case (Cons c conds)
  obtain t data sz col lb where c: "c = (t, data, sz, col, lb)"
    by (cases c) auto
  show ?case
  proof (cases "plottable ai c")
    case True
    then show ?thesis
      using Cons.IH
      by (simp add: c plottable_def column_def ax_step_def times_1000_def drawn_def Let_def
          first_failure_def step_line_def)
  next
    case False
    then show ?thesis
      by (auto simp add: c plottable_def column_def ax_step_def times_1000_def drawn_def
          first_failure_def step_line_def step_error_def)
  qed
qed

lemma subplot_iteration_eq:
  "subplot_iteration cls conds ai axis =
     (case first_failure ai conds of
        Some e \<Rightarrow>
          (\<lparr>geometry = (3, 1, ai + 1), ax_lines = drawn ai conds, ylabel = [], xlabel = [],
            legend = None\<rparr>, Some e)
      | None \<Rightarrow>
          (\<lparr>geometry = (3, 1, ai + 1), ax_lines = drawn ai conds, ylabel = [axis],
            xlabel = (if ai = 2 then ''Time (sec)'' else []),
            legend = (if ai = 1 then Some (map label (drawn ai conds)) else None)\<rparr>,
           if has_set_axes cls then None else Some AttributeError))"
  by (simp add: subplot_iteration_def plot_conditions_eq plt_subplot_def ax_set_ylabel_def
      ax_set_xlabel_def plt_legend_def ax_set_axes_def split: option.splits)

lemma drawn_all: "list_all (plottable ai) conds \<Longrightarrow> drawn ai conds = map (step_line ai) conds"
  by (simp add: drawn_def list_all_iff takeWhile_eq_all_conv [THEN iffD2])

lemma first_failure_none: "list_all (plottable ai) conds \<Longrightarrow> first_failure ai conds = None"
  by (simp add: first_failure_def list_all_iff dropWhile_eq_Nil_conv [THEN iffD2])

lemma conditions_plottable:
  assumes "well_shaped (pos_stat s)" "well_shaped (pos_orig s)" "well_shaped (pos_move s)"
    and "ai < 3"
  shows "list_all (plottable ai) (conditions s)"
  using assms by (simp add: conditions_def well_shaped_def plottable_def)

lemma rendered_eq:
  "rendered cls s =
     fst (plot_rows cls (conditions s) (enumerate 0 ''XYZ'') (plt_figure (figures s)))"
  by (simp add: rendered_def plot_script_def split: prod.splits)

lemma outcome_eq:
  "snd (plot_script cls s) =
     snd (plot_rows cls (conditions s) (enumerate 0 ''XYZ'') (plt_figure (figures s)))"
  by (simp add: plot_script_def split: prod.splits)

lemma plot_rows_fig_num: "fig_num (fst (plot_rows cls conds rws fig)) = fig_num fig"
  by (induction rws arbitrary: fig) (auto split: prod.splits option.splits)

text \<open>Every axes object of the figure was there before the loop or comes from one pass.\<close>

lemma plot_rows_axes_mem:
  "a \<in> set (fig_axes (fst (plot_rows cls conds rws fig))) \<Longrightarrow>
     a \<in> set (fig_axes fig) \<or>
     (\<exists>p \<in> set rws. a = fst (subplot_iteration cls conds (fst p) (snd p)))"
proof (induction rws arbitrary: fig)
  case Nil
  then show ?case by simp
next
  case (Cons p rws)
  obtain ai axis where p: "p = (ai, axis)" by (cases p) auto
  obtain ax r where it: "subplot_iteration cls conds ai axis = (ax, r)"
    by (cases "subplot_iteration cls conds ai axis") auto
  show ?case
  proof (cases r)
    case None
    with Cons.prems p it
    have "a \<in> set (fig_axes (fst (plot_rows cls conds rws
             (fig\<lparr>fig_axes := fig_axes fig @ [ax]\<rparr>))))"
      by simp
    from Cons.IH [OF this] show ?thesis using p it by auto
  next
    case (Some e)
    with Cons.prems p it show ?thesis by auto
  qed
qed

lemma rendered_axes_cases:
  assumes "a \<in> set (fig_axes (rendered cls s))"
  shows "\<exists>p \<in> set [(0, CHR ''X''), (1, CHR ''Y''), (2, CHR ''Z'')].
           a = fst (subplot_iteration cls (conditions s) (fst p) (snd p))"
proof -
  from assms have "a \<in> set (fig_axes (plt_figure (figures s))) \<or>
      (\<exists>p \<in> set (enumerate 0 ''XYZ'').
         a = fst (subplot_iteration cls (conditions s) (fst p) (snd p)))"
    unfolding rendered_eq by (rule plot_rows_axes_mem)
  then show ?thesis
    by (simp add: plt_figure_def numeral_2_eq_2)
qed

text \<open>A pass whose step calls all go through ends the loop or hands over to the next.\<close>

lemma plot_rows_no_set_axes:
  assumes "list_all (plottable ai) conds" and "\<not> has_set_axes cls"
  shows "plot_rows cls conds ((ai, axis) # rws) fig =
     (fig\<lparr>fig_axes := fig_axes fig @ [fst (subplot_iteration cls conds ai axis)]\<rparr>,
      Some AttributeError)"
  using assms by (simp add: subplot_iteration_eq first_failure_none)

lemma plot_rows_with_set_axes:
  assumes "list_all (plottable ai) conds" and "has_set_axes cls"
  shows "plot_rows cls conds ((ai, axis) # rws) fig =
     plot_rows cls conds rws
       (fig\<lparr>fig_axes := fig_axes fig @ [fst (subplot_iteration cls conds ai axis)]\<rparr>)"
  using assms by (simp add: subplot_iteration_eq first_failure_none)

lemma well_shaped_scenario:
  "well_shaped (pos_stat scenario)" "well_shaped (pos_orig scenario)"
  "well_shaped (pos_move scenario)"
  by (simp_all add: well_shaped_def scenario_def)

lemma enumerate_XYZ: "enumerate 0 ''XYZ'' = [(0, CHR ''X''), (1, CHR ''Y''), (2, CHR ''Z'')]"
  by (simp add: numeral_2_eq_2)

lemma conditions_lines:
  "map (step_line ai) (conditions s) =
     [\<lparr>xdata = chpi_t (pos_stat s),
       ydata = times_1000 (map (\<lambda>r. r ! ai) (rows (chpi_trans (pos_stat s)))),
       color = CHR ''y'', marker = CHR ''o'', markersize = 5, step_where = ''post'',
       label = ''stationary''\<rparr>,
      \<lparr>xdata = chpi_t (pos_orig s),
       ydata = times_1000 (map (\<lambda>r. r ! ai) (rows (chpi_trans (pos_orig s)))),
       color = CHR ''k'', marker = CHR ''o'', markersize = 10, step_where = ''post'',
       label = ''original''\<rparr>,
      \<lparr>xdata = chpi_t (pos_move s),
       ydata = times_1000 (map (\<lambda>r. r ! ai) (rows (chpi_trans (pos_move s)))),
       color = CHR ''r'', marker = CHR ''o'', markersize = 5, step_where = ''post'',
       label = ''simulated''\<rparr>]"
  by (simp add: conditions_def step_line_def)

text \<open>On well-shaped input a pass draws all three lines and gets as far as line 115.\<close>

lemma pass_well_shaped:
  assumes "well_shaped (pos_stat s)" "well_shaped (pos_orig s)" "well_shaped (pos_move s)"
    and "ai < 3"
  shows "subplot_iteration cls (conditions s) ai axis =
     (\<lparr>geometry = (3, 1, ai + 1), ax_lines = map (step_line ai) (conditions s),
       ylabel = [axis], xlabel = (if ai = 2 then ''Time (sec)'' else []),
       legend = (if ai = 1 then Some [''stationary'', ''original'', ''simulated''] else None)\<rparr>,
      if has_set_axes cls then None else Some AttributeError)"
proof -
  have "map label (map (step_line ai) (conditions s)) =
      [''stationary'', ''original'', ''simulated'']"
    unfolding conditions_lines by simp
  then show ?thesis
    using conditions_plottable [OF assms]
    by (simp only: subplot_iteration_eq first_failure_none drawn_all option.case)
qed

lemma first_pass_no_set_axes:
  assumes "well_shaped (pos_stat s)" "well_shaped (pos_orig s)" "well_shaped (pos_move s)"
    and "\<not> has_set_axes cls"
  shows "plot_rows cls (conditions s) (enumerate 0 ''XYZ'') fig =
     (fig\<lparr>fig_axes := fig_axes fig @
         [fst (subplot_iteration cls (conditions s) 0 (CHR ''X''))]\<rparr>,
      Some AttributeError)"
proof -
  have "list_all (plottable 0) (conditions s)"
    using assms by (simp add: conditions_plottable)
  then show ?thesis
    unfolding enumerate_XYZ using assms(4) by (rule plot_rows_no_set_axes)
qed

lemma no_set_axes_standard: "\<not> has_set_axes standard_axes"
  by (simp add: standard_axes_def)

lemma rendered_axes_no_set_axes:
  assumes "well_shaped (pos_stat s)" "well_shaped (pos_orig s)" "well_shaped (pos_move s)"
    and "\<not> has_set_axes cls"
  shows "fig_axes (rendered cls s) = [fst (subplot_iteration cls (conditions s) 0 (CHR ''X''))]"
  unfolding rendered_eq first_pass_no_set_axes [OF assms] by (simp add: plt_figure_def)

lemma outcome_no_set_axes:
  assumes "well_shaped (pos_stat s)" "well_shaped (pos_orig s)" "well_shaped (pos_move s)"
    and "\<not> has_set_axes cls"
  shows "snd (plot_script cls s) = Some AttributeError"
  unfolding outcome_eq first_pass_no_set_axes [OF assms] by simp

lemma all_passes_with_set_axes:
  assumes "well_shaped (pos_stat s)" "well_shaped (pos_orig s)" "well_shaped (pos_move s)"
    and "has_set_axes cls"
  shows "plot_rows cls (conditions s) (enumerate 0 ''XYZ'') fig =
     (fig\<lparr>fig_axes := fig_axes fig @
         [fst (subplot_iteration cls (conditions s) 0 (CHR ''X'')),
          fst (subplot_iteration cls (conditions s) 1 (CHR ''Y'')),
          fst (subplot_iteration cls (conditions s) 2 (CHR ''Z''))]\<rparr>, None)"
proof -
  have p: "list_all (plottable 0) (conditions s)" "list_all (plottable 1) (conditions s)"
    "list_all (plottable 2) (conditions s)"
    using assms by (simp_all add: conditions_plottable)
  show ?thesis
    unfolding enumerate_XYZ
    by (simp only: plot_rows_with_set_axes [OF p(1) assms(4)]
        plot_rows_with_set_axes [OF p(2) assms(4)] plot_rows_with_set_axes [OF p(3) assms(4)]
        plot_rows.simps(1)) simp
qed

lemma rendered_axes_with_set_axes:
  assumes "well_shaped (pos_stat s)" "well_shaped (pos_orig s)" "well_shaped (pos_move s)"
    and "has_set_axes cls"
  shows "fig_axes (rendered cls s) =
         [fst (subplot_iteration cls (conditions s) 0 (CHR ''X'')),
          fst (subplot_iteration cls (conditions s) 1 (CHR ''Y'')),
          fst (subplot_iteration cls (conditions s) 2 (CHR ''Z''))]"
  unfolding rendered_eq all_passes_with_set_axes [OF assms] by (simp add: plt_figure_def)

text \<open>
  Where the axes class does provide \<^verbatim>\<open>set_axes\<close>, all three passes run: three rows, the
  legend on the middle one, the time label on the last.
\<close>

lemma three_rows_with_set_axes:
  assumes "well_shaped (pos_stat s)" "well_shaped (pos_orig s)" "well_shaped (pos_move s)"
    and "has_set_axes cls"
  shows "snd (plot_script cls s) = None"
    and "map geometry (fig_axes (rendered cls s)) = [(3, 1, 1), (3, 1, 2), (3, 1, 3)]"
    and "map ylabel (fig_axes (rendered cls s)) = [''X'', ''Y'', ''Z'']"
    and "map legend (fig_axes (rendered cls s)) =
           [None, Some [''stationary'', ''original'', ''simulated''], None]"
    and "map xlabel (fig_axes (rendered cls s)) = [[], [], ''Time (sec)'']"
proof -
  show "snd (plot_script cls s) = None"
    unfolding outcome_eq all_passes_with_set_axes [OF assms] by simp
  note ax = rendered_axes_with_set_axes [OF assms]
  note p = pass_well_shaped [OF assms(1-3)]
  show "map geometry (fig_axes (rendered cls s)) = [(3, 1, 1), (3, 1, 2), (3, 1, 3)]"
    unfolding ax by (simp add: p)
  show "map ylabel (fig_axes (rendered cls s)) = [''X'', ''Y'', ''Z'']"
    unfolding ax by (simp add: p)
  show "map legend (fig_axes (rendered cls s)) =
           [None, Some [''stationary'', ''original'', ''simulated''], None]"
    unfolding ax by (simp add: p)
  show "map xlabel (fig_axes (rendered cls s)) = [[], [], ''Time (sec)'']"
    unfolding ax by (simp add: p)
qed

lemma drawn_nth:
  assumes "j < length (drawn ai conds)"
  shows "j < length conds \<and> plottable ai (conds ! j) \<and>
         drawn ai conds ! j = step_line ai (conds ! j)"
proof -
  let ?tw = "takeWhile (plottable ai) conds"
  from assms have j: "j < length ?tw" by (simp add: drawn_def)
  have "length ?tw \<le> length conds" by (rule length_takeWhile_le)
  with j have "j < length conds" by simp
  moreover from j have nth: "?tw ! j = conds ! j" by (rule takeWhile_nth)
  moreover from j have "?tw ! j \<in> set ?tw" by (rule nth_mem)
  then have "plottable ai (?tw ! j)" by (rule set_takeWhileD [THEN conjunct2])
  ultimately show ?thesis using j by (simp add: drawn_def)
qed

lemma rendered_axes_drawn:
  assumes "ax \<in> set (fig_axes (rendered cls s))"
  shows "\<exists>ai<3. geometry ax = (3, 1, ai + 1) \<and> ax_lines ax = drawn ai (conditions s)"
proof -
  from rendered_axes_cases [OF assms] obtain p
    where p: "p \<in> set [(0, CHR ''X''), (1, CHR ''Y''), (2::nat, CHR ''Z'')]"
      and "ax = fst (subplot_iteration cls (conditions s) (fst p) (snd p))"
    by blast
  then obtain ai axis
    where ax: "ax = fst (subplot_iteration cls (conditions s) ai axis)" and "ai = fst p"
    by simp
  with p have ai: "ai < 3" by auto
  have "geometry ax = (3, 1, ai + 1) \<and> ax_lines ax = drawn ai (conditions s)"
    unfolding ax subplot_iteration_eq by (simp split: option.splits)
  with ai show ?thesis by blast
qed

lemma conditions_nth:
  assumes "j < length (conditions s)"
  shows "j < 3 \<and>
    fst (conditions s ! j) = [chpi_t (pos_stat s), chpi_t (pos_orig s), chpi_t (pos_move s)] ! j \<and>
    fst (snd (conditions s ! j)) =
      [chpi_trans (pos_stat s), chpi_trans (pos_orig s), chpi_trans (pos_move s)] ! j"
proof -
  from assms have "j < 3" by (simp add: conditions_def)
  then have "j = 0 \<or> j = 1 \<or> j = 2" by arith
  then show ?thesis by (auto simp add: conditions_def)
qed

text \<open>The loop's effect on the figure and its outcome depend on the passes only.\<close>

lemma plot_rows_cong:
  assumes "\<forall>p \<in> set rws. subplot_iteration cls conds (fst p) (snd p) =
             subplot_iteration cls' conds' (fst p) (snd p)"
    and "fig_axes fig = fig_axes fig'"
  shows "fig_axes (fst (plot_rows cls conds rws fig)) =
           fig_axes (fst (plot_rows cls' conds' rws fig')) \<and>
         snd (plot_rows cls conds rws fig) = snd (plot_rows cls' conds' rws fig')"
  using assms
proof (induction rws arbitrary: fig fig')
  case Nil
  then show ?case by simp
next
  case (Cons p rws)
  obtain ai axis where p: "p = (ai, axis)" by (cases p) auto
  obtain ax r where it: "subplot_iteration cls conds ai axis = (ax, r)"
    by (cases "subplot_iteration cls conds ai axis") auto
  with Cons.prems(1) p have it': "subplot_iteration cls' conds' ai axis = (ax, r)"
    by simp
  show ?case
  proof (cases r)
    case None
    have "fig_axes (fig\<lparr>fig_axes := fig_axes fig @ [ax]\<rparr>) =
        fig_axes (fig'\<lparr>fig_axes := fig_axes fig' @ [ax]\<rparr>)"
      using Cons.prems(2) by simp
    with Cons.IH [of "fig\<lparr>fig_axes := fig_axes fig @ [ax]\<rparr>"
        "fig'\<lparr>fig_axes := fig_axes fig' @ [ax]\<rparr>"] Cons.prems(1)
    show ?thesis using p it it' None by simp
  next
    case (Some e)
    then show ?thesis using p it it' Cons.prems(2) by simp
  qed
qed

lemma rendered_cong:
  assumes "conditions s = conditions s'"
  shows "fig_axes (rendered cls s) = fig_axes (rendered cls s') \<and>
         snd (plot_script cls s) = snd (plot_script cls s')"
  unfolding rendered_eq outcome_eq assms
  by (rule plot_rows_cong) (simp_all add: plt_figure_def)

lemma conditions_after: "conditions (fst (plot_script cls s)) = conditions s"
  by (simp add: plot_script_def conditions_def split: prod.splits)

lemma figures_after: "figures (fst (plot_script cls s)) = figures s @ [rendered cls s]"
  by (simp add: plot_script_def rendered_def split: prod.splits)

lemma rendered_fig_num: "fig_num (rendered cls s) = Suc (fold max (map fig_num (figures s)) 0)"
  unfolding rendered_eq plot_rows_fig_num by (simp add: plt_figure_def)

text \<open>A pass for one of the indices 0, 1, 2 reads no column beyond the third.\<close>

lemma plottable_first_three:
  "ai < 3 \<Longrightarrow> plottable ai (t, first_three data, rest) = plottable ai (t, data, rest)"
  by (cases rest) (auto simp add: plottable_def first_three_def)

lemma step_line_first_three:
  "ai < 3 \<Longrightarrow> step_line ai (t, first_three data, rest) = step_line ai (t, data, rest)"
  by (cases rest) (simp add: step_line_def first_three_def comp_def)

lemma step_error_first_three:
  "ai < 3 \<Longrightarrow> step_error ai (t, first_three data, rest) = step_error ai (t, data, rest)"
  by (cases rest) (auto simp add: step_error_def first_three_def)

lemma drawn_first_three:
  assumes "ai < 3"
  shows "drawn ai (map (\<lambda>(t, data, rest). (t, first_three data, rest)) conds) = drawn ai conds"
proof -
  have "drawn ai (map (\<lambda>(t, data, rest). (t, first_three data, rest)) cs) = drawn ai cs" for cs
    unfolding drawn_def using assms
    by (induction cs)
      (auto simp add: plottable_first_three step_line_first_three split: prod.splits)
  then show ?thesis .
qed

lemma first_failure_first_three:
  assumes "ai < 3"
  shows "first_failure ai (map (\<lambda>(t, data, rest). (t, first_three data, rest)) conds) =
         first_failure ai conds"
  unfolding first_failure_def using assms
  by (induction conds)
    (auto simp add: plottable_first_three step_error_first_three split: prod.splits)

lemma conditions_first_three:
  assumes "chpi_t (pos_stat s) = chpi_t (pos_stat s')"
    and "first_three (chpi_trans (pos_stat s)) = first_three (chpi_trans (pos_stat s'))"
    and "chpi_t (pos_orig s) = chpi_t (pos_orig s')"
    and "first_three (chpi_trans (pos_orig s)) = first_three (chpi_trans (pos_orig s'))"
    and "chpi_t (pos_move s) = chpi_t (pos_move s')"
    and "first_three (chpi_trans (pos_move s)) = first_three (chpi_trans (pos_move s'))"
  shows "map (\<lambda>(t, data, rest). (t, first_three data, rest)) (conditions s) =
         map (\<lambda>(t, data, rest). (t, first_three data, rest)) (conditions s')"
  using assms by (simp add: conditions_def)

text \<open>With increasing timestamps the sample \<open>k\<close> is shown from its timestamp to the next.\<close>

lemma shown_post_nth:
  assumes "sorted_wrt (<) xs" and "length ys = length xs" and "Suc k < length xs"
    and "xs ! k \<le> x" and "x < xs ! Suc k"
  shows "shown_post xs ys x = Some (ys ! k)"
  using assms
proof (induction xs ys x arbitrary: k rule: shown_post.induct)
  case (1 x0 x1 xs y0 ys x)
  show ?case
  proof (cases k)
    case 0
    with "1.prems" show ?thesis by simp
  next
    case (Suc k')
    have "x1 \<le> (x1 # xs) ! k'"
    proof (cases k')
      case 0
      then show ?thesis by simp
    next
      case (Suc n)
      with "1.prems"(3) \<open>k = Suc k'\<close> have "xs ! n \<in> set xs" by simp
      with "1.prems"(1) Suc show ?thesis by auto
    qed
    with "1.prems" Suc have out: "\<not> (x0 \<le> x \<and> x < x1)" by simp
    from "1.prems" Suc have "shown_post (x1 # xs) ys x = Some (ys ! k')"
      by (intro "1.IH" [OF out]) auto
    moreover from out have "shown_post (x0 # x1 # xs) (y0 # ys) x = shown_post (x1 # xs) ys x"
      by auto
    ultimately show ?thesis using Suc by simp
  qed
qed simp_all

text \<open>Without the method no pass comes to a good end, so the first pass is the last.\<close>

lemma pass_fails_without_set_axes:
  assumes "\<not> has_set_axes cls"
  shows "snd (subplot_iteration cls conds ai axis) \<noteq> None"
  unfolding subplot_iteration_eq using assms by (cases "first_failure ai conds") simp_all

lemma first_pass_ends_run:
  assumes "\<not> has_set_axes cls"
  shows "\<exists>ax e. plot_rows cls conds ((ai, axis) # rws) fig =
           (fig\<lparr>fig_axes := fig_axes fig @ [ax]\<rparr>, Some e)"
proof -
  obtain ax r where it: "subplot_iteration cls conds ai axis = (ax, r)"
    by (cases "subplot_iteration cls conds ai axis") auto
  with pass_fails_without_set_axes [OF assms, of conds ai axis] obtain e where "r = Some e"
    by auto
  with it have "plot_rows cls conds ((ai, axis) # rws) fig =
      (fig\<lparr>fig_axes := fig_axes fig @ [ax]\<rparr>, Some e)"
    by simp
  then show ?thesis by blast
qed

section \<open>The defect of line 115\<close>

text \<open>
  Claim C2. Every pass of the rendering loop ends with the call \<^verbatim>\<open>ax.set_axes('tight')\<close>.
  On axes objects of the standard class, which has no such method, no run gets beyond its
  first pass, whatever the input: the figure is left with one subplot and the run ends in
  an error. On well-shaped trajectories that error is the AttributeError of the call: the
  subplot of the X row is drawn and labelled in full before it, and each of the three
  passes, run on its own, does all of its drawing and then fails at that call.
\<close>

theorem set_axes_raises_in_first_pass:
  "length (fig_axes (rendered standard_axes s)) = 1 \<and>
   snd (plot_script standard_axes s) \<noteq> None \<and>
   (well_shaped (pos_stat s) \<and> well_shaped (pos_orig s) \<and> well_shaped (pos_move s) \<longrightarrow>
      snd (plot_script standard_axes s) = Some AttributeError \<and>
      map geometry (fig_axes (rendered standard_axes s)) = [(3, 1, 1)] \<and>
      map ylabel (fig_axes (rendered standard_axes s)) = [''X''] \<and>
      map (\<lambda>a. length (ax_lines a)) (fig_axes (rendered standard_axes s)) = [3] \<and>
      (\<forall>ai<3. subplot_iteration standard_axes (conditions s) ai axis =
         (fst (subplot_iteration \<lparr>has_set_axes = True\<rparr> (conditions s) ai axis),
          Some AttributeError)))"
proof -
  from first_pass_ends_run [OF no_set_axes_standard] obtain ax e
    where "plot_rows standard_axes (conditions s) (enumerate 0 ''XYZ'')
        (plt_figure (figures s)) =
      ((plt_figure (figures s))\<lparr>fig_axes := fig_axes (plt_figure (figures s)) @ [ax]\<rparr>, Some e)"
    unfolding enumerate_XYZ by blast
  then have always: "length (fig_axes (rendered standard_axes s)) = 1 \<and>
      snd (plot_script standard_axes s) \<noteq> None"
    unfolding rendered_eq outcome_eq by (simp add: plt_figure_def)
  have shaped: "snd (plot_script standard_axes s) = Some AttributeError \<and>
      map geometry (fig_axes (rendered standard_axes s)) = [(3, 1, 1)] \<and>
      map ylabel (fig_axes (rendered standard_axes s)) = [''X''] \<and>
      map (\<lambda>a. length (ax_lines a)) (fig_axes (rendered standard_axes s)) = [3] \<and>
      (\<forall>ai<3. subplot_iteration standard_axes (conditions s) ai axis =
         (fst (subplot_iteration \<lparr>has_set_axes = True\<rparr> (conditions s) ai axis),
          Some AttributeError))"
    if ws: "well_shaped (pos_stat s)" "well_shaped (pos_orig s)" "well_shaped (pos_move s)"
  proof -
    have "length (conditions s) = 3"
      by (simp add: conditions_def)
    moreover have "subplot_iteration standard_axes (conditions s) ai axis =
        (fst (subplot_iteration \<lparr>has_set_axes = True\<rparr> (conditions s) ai axis),
         Some AttributeError)" if "ai < 3" for ai
      by (simp add: pass_well_shaped [OF ws that] standard_axes_def)
    ultimately show ?thesis
      by (simp add: outcome_no_set_axes [OF ws no_set_axes_standard]
          rendered_axes_no_set_axes [OF ws no_set_axes_standard] pass_well_shaped [OF ws])
  qed
  from always shaped show ?thesis by blast
qed

theorem set_axes_raises_in_first_pass_witness:
  "well_shaped (pos_stat scenario) \<and> well_shaped (pos_orig scenario) \<and>
   well_shaped (pos_move scenario) \<and>
   snd (plot_script standard_axes scenario) = Some AttributeError \<and>
   map geometry (fig_axes (rendered standard_axes scenario)) = [(3, 1, 1)] \<and>
   map ylabel (fig_axes (rendered standard_axes scenario)) = [''X'']"
  using set_axes_raises_in_first_pass [of scenario "CHR ''X''"]
  by (simp add: well_shaped_scenario)

text \<open>
  Claim C3, evaluated on the scenario of the spec with the standard axes class: the figure
  holds one subplot, the X row of the 3 by 1 grid, and the run ends in AttributeError;
  the Y and Z rows are never created.
\<close>

theorem one_subplot_on_standard_axes:
  "snd (plot_script standard_axes scenario) = Some AttributeError \<and>
   length (fig_axes (rendered standard_axes scenario)) = 1 \<and>
   map geometry (fig_axes (rendered standard_axes scenario)) = [(3, 1, 1)] \<and>
   map ylabel (fig_axes (rendered standard_axes scenario)) = [''X'']"
  by (simp add: outcome_no_set_axes [OF well_shaped_scenario no_set_axes_standard]
      rendered_axes_no_set_axes [OF well_shaped_scenario no_set_axes_standard]
      pass_well_shaped [OF well_shaped_scenario])

text \<open>
  Claim C5, evaluated on the same input: the run ends before the pass that would draw the
  legend, so no subplot of the figure has one.
\<close>

theorem no_legend_on_standard_axes:
  "map legend (fig_axes (rendered standard_axes scenario)) = [None]"
  by (simp add: rendered_axes_no_set_axes [OF well_shaped_scenario no_set_axes_standard]
      pass_well_shaped [OF well_shaped_scenario])

text \<open>
  Claim C6, evaluated on the same input: the run ends before the pass that would label the
  horizontal axis, so the label of the only subplot is empty.
\<close>

theorem no_time_label_on_standard_axes:
  "map xlabel (fig_axes (rendered standard_axes scenario)) = [[]]"
  by (simp add: rendered_axes_no_set_axes [OF well_shaped_scenario no_set_axes_standard]
      pass_well_shaped [OF well_shaped_scenario])

section \<open>What every subplot shows\<close>



text \<open>
  Claim C4. On well-shaped trajectories every subplot of the figure holds the three lines
  in the order stationary, original, simulated: each drawn against its own timestamps by a
  step call with \<^verbatim>\<open>where='post'\<close>, in the colours y, k, r, with the marker o at the sizes
  5, 10, 5. A line so drawn shows, from one timestamp up to the next, the value of the
  earlier sample.
\<close>

theorem conditions_drawn_in_order:
  assumes "well_shaped (pos_stat s)" and "well_shaped (pos_orig s)"
    and "well_shaped (pos_move s)" and "ax \<in> set (fig_axes (rendered cls s))"
  shows "map label (ax_lines ax) = [''stationary'', ''original'', ''simulated''] \<and>
         map xdata (ax_lines ax) =
           [chpi_t (pos_stat s), chpi_t (pos_orig s), chpi_t (pos_move s)] \<and>
         map step_where (ax_lines ax) = [''post'', ''post'', ''post''] \<and>
         map color (ax_lines ax) = ''ykr'' \<and>
         map marker (ax_lines ax) = ''ooo'' \<and>
         map markersize (ax_lines ax) = [5, 10, 5] \<and>
         (\<forall>l \<in> set (ax_lines ax). \<forall>k x.
            sorted_wrt (<) (xdata l) \<and> Suc k < length (xdata l) \<and>
            xdata l ! k \<le> x \<and> x < xdata l ! Suc k \<longrightarrow> shown l x = Some (ydata l ! k))"
proof -
  from rendered_axes_drawn [OF assms(4)] obtain ai
    where ai: "ai < 3" and "ax_lines ax = drawn ai (conditions s)"
    by auto
  with conditions_plottable [OF assms(1-3) ai]
  have lines: "ax_lines ax = map (step_line ai) (conditions s)"
    by (simp add: drawn_all)
  have held: "shown l x = Some (ydata l ! k)"
    if l: "l \<in> set (ax_lines ax)" and inc: "sorted_wrt (<) (xdata l)"
      and k: "Suc k < length (xdata l)" "xdata l ! k \<le> x" "x < xdata l ! Suc k"
    for l k x
  proof -
    from l assms(1-3) have "step_where l = ''post''" and "length (ydata l) = length (xdata l)"
      unfolding lines conditions_lines by (auto simp add: well_shaped_def times_1000_def)
    with shown_post_nth [OF inc _ k] show ?thesis
      by (simp add: shown_def)
  qed
  from lines have "map label (ax_lines ax) = [''stationary'', ''original'', ''simulated''] \<and>
         map xdata (ax_lines ax) =
           [chpi_t (pos_stat s), chpi_t (pos_orig s), chpi_t (pos_move s)] \<and>
         map step_where (ax_lines ax) = [''post'', ''post'', ''post''] \<and>
         map color (ax_lines ax) = ''ykr'' \<and>
         map marker (ax_lines ax) = ''ooo'' \<and>
         map markersize (ax_lines ax) = [5, 10, 5]"
    unfolding conditions_lines by simp
  with held show ?thesis by blast
qed

theorem conditions_drawn_in_order_witness:
  "well_shaped (pos_stat scenario) \<and> well_shaped (pos_orig scenario) \<and>
   well_shaped (pos_move scenario) \<and>
   hd (fig_axes (rendered standard_axes scenario))
     \<in> set (fig_axes (rendered standard_axes scenario)) \<and>
   map label (ax_lines (hd (fig_axes (rendered standard_axes scenario)))) =
     [''stationary'', ''original'', ''simulated''] \<and>
   map xdata (ax_lines (hd (fig_axes (rendered standard_axes scenario)))) =
     [[0, 1, 2], [0, 1 / 2, 1, 3 / 2, 2], [0, 1, 2]] \<and>
   map markersize (ax_lines (hd (fig_axes (rendered standard_axes scenario)))) = [5, 10, 5] \<and>
   shown (ax_lines (hd (fig_axes (rendered standard_axes scenario))) ! 1) (3 / 4) = Some 1"
proof -
  have ax: "fig_axes (rendered standard_axes scenario) =
      [fst (subplot_iteration standard_axes (conditions scenario) 0 (CHR ''X''))]"
    by (rule rendered_axes_no_set_axes [OF well_shaped_scenario no_set_axes_standard])
  have mem: "hd (fig_axes (rendered standard_axes scenario))
      \<in> set (fig_axes (rendered standard_axes scenario))"
    by (simp add: ax)
  have t: "chpi_t (pos_stat scenario) = [0, 1, 2]"
    "chpi_t (pos_orig scenario) = [0, 1 / 2, 1, 3 / 2, 2]"
    "chpi_t (pos_move scenario) = [0, 1, 2]"
    by (simp_all add: scenario_def)
  have "ax_lines (hd (fig_axes (rendered standard_axes scenario))) =
      map (step_line 0) (conditions scenario)"
    by (simp add: ax pass_well_shaped [OF well_shaped_scenario])
  then have "ax_lines (hd (fig_axes (rendered standard_axes scenario))) ! 1 =
      \<lparr>xdata = chpi_t (pos_orig scenario),
       ydata = times_1000 (map (\<lambda>r. r ! 0) (rows (chpi_trans (pos_orig scenario)))),
       color = CHR ''k'', marker = CHR ''o'', markersize = 10, step_where = ''post'',
       label = ''original''\<rparr>"
    unfolding conditions_lines by simp
  then have "shown (ax_lines (hd (fig_axes (rendered standard_axes scenario))) ! 1) (3 / 4) =
      Some 1"
    by (simp add: shown_def scenario_def times_1000_def)
  with conditions_drawn_in_order [OF well_shaped_scenario mem] mem show ?thesis
    by (simp add: well_shaped_scenario t)
qed

text \<open>
  Claim C7. On every subplot, each line that is drawn has as many points as its condition
  has timestamps. Nothing relates the timestamps of one condition to those of another:
  when each trajectory is well-shaped on its own, every subplot holds all three lines.
\<close>

theorem plotted_points_match_timestamps:
  assumes "ax \<in> set (fig_axes (rendered cls s))"
  shows "(\<forall>j < length (ax_lines ax). j < 3 \<and>
            length (xdata (ax_lines ax ! j)) =
              length ([chpi_t (pos_stat s), chpi_t (pos_orig s), chpi_t (pos_move s)] ! j) \<and>
            length (ydata (ax_lines ax ! j)) =
              length ([chpi_t (pos_stat s), chpi_t (pos_orig s), chpi_t (pos_move s)] ! j)) \<and>
         (well_shaped (pos_stat s) \<and> well_shaped (pos_orig s) \<and> well_shaped (pos_move s)
            \<longrightarrow> length (ax_lines ax) = 3)"
proof -
  from rendered_axes_drawn [OF assms] obtain ai
    where ai: "ai < 3" and lines: "ax_lines ax = drawn ai (conditions s)"
    by auto
  let ?ts = "[chpi_t (pos_stat s), chpi_t (pos_orig s), chpi_t (pos_move s)]"
  have "j < 3 \<and> length (xdata (ax_lines ax ! j)) = length (?ts ! j) \<and>
      length (ydata (ax_lines ax ! j)) = length (?ts ! j)"
    if "j < length (ax_lines ax)" for j
  proof -
    from that lines have "j < length (drawn ai (conditions s))" by simp
    from drawn_nth [OF this]
    have j: "j < length (conditions s)" and pl: "plottable ai (conditions s ! j)"
      and nth: "ax_lines ax ! j = step_line ai (conditions s ! j)"
      by (simp_all add: lines)
    from conditions_nth [OF j] have "j < 3" and "fst (conditions s ! j) = ?ts ! j"
      by simp_all
    with pl nth show ?thesis
      by (auto simp add: plottable_def step_line_def times_1000_def split: prod.splits)
  qed
  moreover have "length (ax_lines ax) = 3"
    if "well_shaped (pos_stat s) \<and> well_shaped (pos_orig s) \<and> well_shaped (pos_move s)"
  proof -
    from that ai have "list_all (plottable ai) (conditions s)"
      by (simp add: conditions_plottable)
    then show ?thesis
      by (simp add: lines drawn_all conditions_def)
  qed
  ultimately show ?thesis by blast
qed

theorem plotted_points_match_timestamps_witness:
  "hd (fig_axes (rendered standard_axes scenario))
     \<in> set (fig_axes (rendered standard_axes scenario)) \<and>
   well_shaped (pos_stat scenario) \<and> well_shaped (pos_orig scenario) \<and>
   well_shaped (pos_move scenario) \<and>
   length (ax_lines (hd (fig_axes (rendered standard_axes scenario)))) = 3 \<and>
   map (\<lambda>l. length (ydata l)) (ax_lines (hd (fig_axes (rendered standard_axes scenario)))) =
     [3, 5, 3] \<and>
   map length [chpi_t (pos_stat scenario), chpi_t (pos_orig scenario),
               chpi_t (pos_move scenario)] = [3, 5, 3]"
proof -
  have mem: "hd (fig_axes (rendered standard_axes scenario))
      \<in> set (fig_axes (rendered standard_axes scenario))"
    by (simp add: rendered_axes_no_set_axes [OF well_shaped_scenario no_set_axes_standard])
  have t: "chpi_t (pos_stat scenario) = [0, 1, 2]"
    "chpi_t (pos_orig scenario) = [0, 1 / 2, 1, 3 / 2, 2]"
    "chpi_t (pos_move scenario) = [0, 1, 2]"
    by (simp_all add: scenario_def)
  let ?ls = "ax_lines (hd (fig_axes (rendered standard_axes scenario)))"
  from plotted_points_match_timestamps [OF mem]
  have all: "\<forall>j < length ?ls. length (ydata (?ls ! j)) =
      length ([chpi_t (pos_stat scenario), chpi_t (pos_orig scenario),
               chpi_t (pos_move scenario)] ! j)"
    and len: "length ?ls = 3"
    by (simp_all add: well_shaped_scenario)
  from all len have "length (ydata (?ls ! 0)) = 3" "length (ydata (?ls ! 1)) = 5"
    "length (ydata (?ls ! 2)) = 3"
    by (simp_all add: t)
  moreover from len obtain a b c where "?ls = [a, b, c]"
    by (auto simp add: length_Suc_conv numeral_3_eq_3)
  ultimately show ?thesis
    using mem by (simp add: well_shaped_scenario t)
qed

section \<open>Effects and dependencies\<close>

text \<open>After a run the script's variables are as before, so a second run sees the same input.\<close>

lemma replot_in_sequence:
  "fig_axes (rendered cls (fst (plot_script cls s))) = fig_axes (rendered cls s) \<and>
   snd (plot_script cls (fst (plot_script cls s))) = snd (plot_script cls s) \<and>
   fig_num (rendered cls (fst (plot_script cls s))) = Suc (fig_num (rendered cls s))"
proof -
  have "fig_num (rendered cls (fst (plot_script cls s))) = Suc (fig_num (rendered cls s))"
    by (simp add: rendered_fig_num figures_after)
  then show ?thesis
    using rendered_cong [OF conditions_after, of cls cls s] by simp
qed

text \<open>
  Claim C8. Two runs on the same three trajectories draw the same data and end the same
  way, whatever figures the library holds and whatever files exist at the time of each:
  the figure of a second run differs from that of the first in its number only.
\<close>

theorem replot_same_data:
  assumes "pos_stat s' = pos_stat s" and "pos_orig s' = pos_orig s"
    and "pos_move s' = pos_move s"
  shows "fig_axes (rendered cls s') = fig_axes (rendered cls s) \<and>
         snd (plot_script cls s') = snd (plot_script cls s)"
proof -
  from assms have "conditions s' = conditions s"
    by (simp add: conditions_def)
  then show ?thesis by (rule rendered_cong)
qed

theorem replot_same_data_witness:
  "pos_stat (fst (plot_script standard_axes scenario)) = pos_stat scenario \<and>
   pos_orig (fst (plot_script standard_axes scenario)) = pos_orig scenario \<and>
   pos_move (fst (plot_script standard_axes scenario)) = pos_move scenario \<and>
   figures (fst (plot_script standard_axes scenario)) \<noteq> figures scenario \<and>
   fig_axes (rendered standard_axes (fst (plot_script standard_axes scenario))) =
     fig_axes (rendered standard_axes scenario) \<and>
   snd (plot_script standard_axes (fst (plot_script standard_axes scenario))) =
     snd (plot_script standard_axes scenario) \<and>
   fig_num (rendered standard_axes scenario) = 1 \<and>
   fig_num (rendered standard_axes (fst (plot_script standard_axes scenario))) = 2"
proof -
  have same: "pos_stat (fst (plot_script standard_axes scenario)) = pos_stat scenario"
    "pos_orig (fst (plot_script standard_axes scenario)) = pos_orig scenario"
    "pos_move (fst (plot_script standard_axes scenario)) = pos_move scenario"
    by (simp_all add: plot_script_def split: prod.splits)
  have "figures scenario = []"
    by (simp add: scenario_def)
  then have "figures (fst (plot_script standard_axes scenario)) \<noteq> figures scenario"
    and "fig_num (rendered standard_axes scenario) = 1"
    and "fig_num (rendered standard_axes (fst (plot_script standard_axes scenario))) = 2"
    by (simp_all add: figures_after rendered_fig_num)
  with replot_same_data [OF same, of standard_axes] same show ?thesis
    by simp
qed

text \<open>
  Claim C9. A run adds one figure to those the plotting library holds and changes nothing
  else: no file is written, and the three trajectories (timestamps, translations and
  rotations) are the ones loaded.
\<close>

theorem plot_only_adds_a_figure:
  "figures (fst (plot_script cls s)) = figures s @ [rendered cls s] \<and>
   files_written (fst (plot_script cls s)) = files_written s \<and>
   pos_stat (fst (plot_script cls s)) = pos_stat s \<and>
   pos_orig (fst (plot_script cls s)) = pos_orig s \<and>
   pos_move (fst (plot_script cls s)) = pos_move s"
  by (simp add: plot_script_def rendered_def split: prod.splits)

text \<open>
  Claim C10. What is drawn, and how the run ends, depends on the timestamps and on the
  first three columns of the translations only: two states that agree on these, whatever
  their rotations (and further columns, open figures and files), give the same subplots.
\<close>

theorem plot_reads_times_and_three_columns:
  assumes "chpi_t (pos_stat s) = chpi_t (pos_stat s')"
    and "first_three (chpi_trans (pos_stat s)) = first_three (chpi_trans (pos_stat s'))"
    and "chpi_t (pos_orig s) = chpi_t (pos_orig s')"
    and "first_three (chpi_trans (pos_orig s)) = first_three (chpi_trans (pos_orig s'))"
    and "chpi_t (pos_move s) = chpi_t (pos_move s')"
    and "first_three (chpi_trans (pos_move s)) = first_three (chpi_trans (pos_move s'))"
  shows "fig_axes (rendered cls s) = fig_axes (rendered cls s') \<and>
         snd (plot_script cls s) = snd (plot_script cls s')"
proof -
  note narrow = conditions_first_three [OF assms]
  have pass: "subplot_iteration cls (conditions s) ai axis =
      subplot_iteration cls (conditions s') ai axis" if "ai < 3" for ai axis
  proof -
    have "drawn ai (conditions s) = drawn ai (conditions s')"
      using drawn_first_three [OF that, of "conditions s"]
        drawn_first_three [OF that, of "conditions s'"] narrow by simp
    moreover have "first_failure ai (conditions s) = first_failure ai (conditions s')"
      using first_failure_first_three [OF that, of "conditions s"]
        first_failure_first_three [OF that, of "conditions s'"] narrow by simp
    ultimately show ?thesis
      by (simp only: subplot_iteration_eq)
  qed
  have "\<forall>p \<in> set (enumerate 0 ''XYZ'').
      subplot_iteration cls (conditions s) (fst p) (snd p) =
      subplot_iteration cls (conditions s') (fst p) (snd p)"
    unfolding enumerate_XYZ by (simp add: pass)
  then show ?thesis
    unfolding rendered_eq outcome_eq
    by (rule plot_rows_cong) (simp add: plt_figure_def)
qed

theorem plot_reads_times_and_three_columns_witness:
  "chpi_t (pos_stat scenario) = chpi_t (pos_stat scenario_other_rotations) \<and>
   first_three (chpi_trans (pos_stat scenario)) =
     first_three (chpi_trans (pos_stat scenario_other_rotations)) \<and>
   chpi_t (pos_orig scenario) = chpi_t (pos_orig scenario_other_rotations) \<and>
   first_three (chpi_trans (pos_orig scenario)) =
     first_three (chpi_trans (pos_orig scenario_other_rotations)) \<and>
   chpi_t (pos_move scenario) = chpi_t (pos_move scenario_other_rotations) \<and>
   first_three (chpi_trans (pos_move scenario)) =
     first_three (chpi_trans (pos_move scenario_other_rotations)) \<and>
   chpi_rot (pos_stat scenario) \<noteq> chpi_rot (pos_stat scenario_other_rotations) \<and>
   chpi_rot (pos_orig scenario) \<noteq> chpi_rot (pos_orig scenario_other_rotations) \<and>
   chpi_rot (pos_move scenario) \<noteq> chpi_rot (pos_move scenario_other_rotations) \<and>
   chpi_trans (pos_move scenario) \<noteq> chpi_trans (pos_move scenario_other_rotations) \<and>
   fig_axes (rendered standard_axes scenario) =
     fig_axes (rendered standard_axes scenario_other_rotations) \<and>
   snd (plot_script standard_axes scenario) =
     snd (plot_script standard_axes scenario_other_rotations)"
proof -
  have h: "chpi_t (pos_stat scenario) = chpi_t (pos_stat scenario_other_rotations)"
    "first_three (chpi_trans (pos_stat scenario)) =
       first_three (chpi_trans (pos_stat scenario_other_rotations))"
    "chpi_t (pos_orig scenario) = chpi_t (pos_orig scenario_other_rotations)"
    "first_three (chpi_trans (pos_orig scenario)) =
       first_three (chpi_trans (pos_orig scenario_other_rotations))"
    "chpi_t (pos_move scenario) = chpi_t (pos_move scenario_other_rotations)"
    "first_three (chpi_trans (pos_move scenario)) =
       first_three (chpi_trans (pos_move scenario_other_rotations))"
    by (simp_all add: scenario_def scenario_other_rotations_def first_three_def)
  have d: "chpi_rot (pos_stat scenario) \<noteq> chpi_rot (pos_stat scenario_other_rotations)"
    "chpi_rot (pos_orig scenario) \<noteq> chpi_rot (pos_orig scenario_other_rotations)"
    "chpi_rot (pos_move scenario) \<noteq> chpi_rot (pos_move scenario_other_rotations)"
    "chpi_trans (pos_move scenario) \<noteq> chpi_trans (pos_move scenario_other_rotations)"
    by (simp_all add: scenario_def scenario_other_rotations_def eye3_def numeral_3_eq_3)
  from plot_reads_times_and_three_columns [OF h, of standard_axes] h d show ?thesis
    by simp
qed

end
